theory Spec2Isabelle
  imports Main "HOL-Library.Word"
begin

section \<open>Session identity: SecureSessionHandle\<close>

text \<open>
  \<^verbatim>\<open>NodeId\<close> is a 64-bit and \<^verbatim>\<open>Transport::AdminId\<close> a 16-bit unsigned integer. The class
  has three private fields, set by its constructors.
\<close>

type_synonym NodeId = "64 word"
type_synonym AdminId = "16 word"

record SecureSessionHandle =
  mPeerNodeId :: NodeId
  mPeerKeyId :: "16 word"
  mAdmin :: AdminId

text \<open>
  The two constructors. The constants \<^verbatim>\<open>kAnyNodeId\<close> and \<^verbatim>\<open>Transport::kUndefinedAdminId\<close>
  are declared in headers outside the sources at hand, so they are parameters here.
\<close>

definition SecureSessionHandle_default :: "NodeId \<Rightarrow> AdminId \<Rightarrow> SecureSessionHandle" where
  "SecureSessionHandle_default kAnyNodeId kUndefinedAdminId =
     \<lparr>mPeerNodeId = kAnyNodeId, mPeerKeyId = 0, mAdmin = kUndefinedAdminId\<rparr>"

definition SecureSessionHandle_new :: "NodeId \<Rightarrow> 16 word \<Rightarrow> AdminId \<Rightarrow> SecureSessionHandle" where
  "SecureSessionHandle_new peerNodeId peerKeyId admin =
     \<lparr>mPeerNodeId = peerNodeId, mPeerKeyId = peerKeyId, mAdmin = admin\<rparr>"

definition HasAdminId :: "AdminId \<Rightarrow> SecureSessionHandle \<Rightarrow> bool" where
  "HasAdminId kUndefinedAdminId h = (mAdmin h \<noteq> kUndefinedAdminId)"

definition GetAdminId :: "SecureSessionHandle \<Rightarrow> AdminId" where
  "GetAdminId h = mAdmin h"

definition SetAdminId :: "AdminId \<Rightarrow> SecureSessionHandle \<Rightarrow> SecureSessionHandle" where
  "SetAdminId adminId h = h\<lparr>mAdmin := adminId\<rparr>"

definition handle_equals :: "SecureSessionHandle \<Rightarrow> SecureSessionHandle \<Rightarrow> bool" where
  \<comment> \<open>\<^verbatim>\<open>operator==\<close>\<close>
  "handle_equals this that =
     (mPeerNodeId this = mPeerNodeId that \<and> mPeerKeyId this = mPeerKeyId that
        \<and> mAdmin this = mAdmin that)"

definition GetPeerNodeId :: "SecureSessionHandle \<Rightarrow> NodeId" where
  "GetPeerNodeId h = mPeerNodeId h"

definition GetPeerKeyId :: "SecureSessionHandle \<Rightarrow> 16 word" where
  "GetPeerKeyId h = mPeerKeyId h"

text \<open>
  The public member functions of the class as one interface: a call names the member and
  its arguments, and running it on an object gives the value returned together with the
  object afterwards. The \<^verbatim>\<open>const\<close> members hand the object back as they found it. The class
  declares no assignment operator, so the language declares the public copy and move
  assignment for it: each writes the three fields of its argument into the object and
  returns the object.
\<close>

datatype handle_call =
    Call_HasAdminId
  | Call_GetAdminId
  | Call_SetAdminId AdminId
  | Call_equals SecureSessionHandle
  | Call_GetPeerNodeId
  | Call_GetPeerKeyId
  | Call_copy_assign SecureSessionHandle
  | Call_move_assign SecureSessionHandle

datatype handle_ret =
    Ret_void
  | Ret_bool bool
  | Ret_AdminId AdminId
  | Ret_NodeId NodeId
  | Ret_KeyId "16 word"
  | Ret_this SecureSessionHandle

fun handle_invoke ::
  "AdminId \<Rightarrow> handle_call \<Rightarrow> SecureSessionHandle \<Rightarrow> handle_ret \<times> SecureSessionHandle" where
  "handle_invoke u Call_HasAdminId h = (Ret_bool (HasAdminId u h), h)"
| "handle_invoke u Call_GetAdminId h = (Ret_AdminId (GetAdminId h), h)"
| "handle_invoke u (Call_SetAdminId a) h = (Ret_void, SetAdminId a h)"
| "handle_invoke u (Call_equals that) h = (Ret_bool (handle_equals h that), h)"
| "handle_invoke u Call_GetPeerNodeId h = (Ret_NodeId (GetPeerNodeId h), h)"
| "handle_invoke u Call_GetPeerKeyId h = (Ret_KeyId (GetPeerKeyId h), h)"
| "handle_invoke u (Call_copy_assign that) h = (Ret_this that, that)"
| "handle_invoke u (Call_move_assign that) h = (Ret_this that, that)"

definition is_assignment :: "handle_call \<Rightarrow> bool" where
  "is_assignment c =
     (case c of Call_copy_assign that \<Rightarrow> True | Call_move_assign that \<Rightarrow> True | _ \<Rightarrow> False)"

definition is_SetAdminId :: "handle_call \<Rightarrow> bool" where
  "is_SetAdminId c = (case c of Call_SetAdminId a \<Rightarrow> True | _ \<Rightarrow> False)"

section \<open>Service discovery: BaseAdvertisingParams\<close>

definition kMaxMacSize :: nat where
  "kMaxMacSize = 8"

text \<open>
  \<^verbatim>\<open>mPort\<close> starts as \<^verbatim>\<open>CHIP_PORT\<close>, a macro defined outside the sources at hand, so the
  initial object takes it as a parameter. \<^verbatim>\<open>mMacStorage\<close> is an array of \<^verbatim>\<open>kMaxMacSize\<close>
  bytes, zero-initialised.
\<close>

record BaseAdvertisingParams =
  mPort :: "16 word"
  mEnableIPv4 :: bool
  mMacStorage :: "8 word list"
  mMacLength :: nat

definition BaseAdvertisingParams_init :: "16 word \<Rightarrow> BaseAdvertisingParams" where
  "BaseAdvertisingParams_init CHIP_PORT =
     \<lparr>mPort = CHIP_PORT, mEnableIPv4 = True,
      mMacStorage = replicate kMaxMacSize 0, mMacLength = 0\<rparr>"

definition memcpy :: "8 word list \<Rightarrow> 8 word list \<Rightarrow> nat \<Rightarrow> 8 word list" where
  \<comment> \<open>the first \<open>n\<close> bytes of \<open>dst\<close> replaced by the first \<open>n\<close> bytes of \<open>src\<close>\<close>
  "memcpy dst src n = take n src @ drop n dst"

definition SetMac :: "8 word list \<Rightarrow> BaseAdvertisingParams \<Rightarrow> BaseAdvertisingParams" where
  "SetMac mac p =
     (let len = min (length mac) kMaxMacSize
      in p\<lparr>mMacLength := len, mMacStorage := memcpy (mMacStorage p) mac len\<rparr>)"

definition GetMac :: "BaseAdvertisingParams \<Rightarrow> 8 word list" where
  "GetMac p = take (mMacLength p) (mMacStorage p)"

section \<open>Packet buffers\<close>

text \<open>
  Modelled from the spec: \<^verbatim>\<open>System::PacketBuffer\<close> and \<^verbatim>\<open>System::PacketBufferHandle\<close> are
  declared in the system layer, outside the sources at hand. A packet buffer is a
  variable-length byte sequence inside a fixed capacity, possibly followed by further
  buffers of a chain; a handle owns a buffer or is empty.
\<close>

record PacketBuffer =
  payload :: "8 word list"
  max_data_length :: nat
  has_next :: bool

type_synonym PacketBufferHandle = "PacketBuffer option"

text \<open>
  Modelled from the spec: \<^verbatim>\<open>PacketBuffer::AvailableDataLength\<close> is not among the sources. What
  "remains available" in a buffer is the part of its capacity that the data does not take.
\<close>

definition AvailableDataLength :: "PacketBuffer \<Rightarrow> nat" where
  "AvailableDataLength b = max_data_length b - length (payload b)"

text \<open>
  Modelled from the spec: the members of \<^verbatim>\<open>PacketBuffer\<close> that write data are not among the
  sources. Filling a buffer with payload makes the bytes the buffer's data; a buffer never
  holds more than its capacity.
\<close>

definition fill_payload :: "PacketBuffer \<Rightarrow> 8 word list \<Rightarrow> PacketBuffer" where
  "fill_payload b bytes = b\<lparr>payload := take (max_data_length b) bytes\<rparr>"

text \<open>
  The system allocator \<^verbatim>\<open>PacketBufferHandle::New(size)\<close> is outside the sources too. It is a
  parameter: a function from the size asked for to a handle, empty when the allocation
  fails. Its contract, from the documentation of \<^verbatim>\<open>MessagePacketBuffer::New\<close> ("minimum number
  of octets for application data"): a buffer it hands out is empty and has room for at least
  the size asked for.
\<close>

type_synonym allocator = "nat \<Rightarrow> PacketBufferHandle"

definition allocator_contract :: "allocator \<Rightarrow> bool" where
  "allocator_contract alloc =
     (\<forall>k b. alloc k = Some b \<longrightarrow> payload b = [] \<and> k \<le> max_data_length b \<and> \<not> has_next b)"

text \<open>
  An allocator over a pool of buffers of one size, with a number of buffers left: it serves
  a request that fits a pool buffer while the pool is not exhausted.
\<close>

definition pool_allocator :: "nat \<Rightarrow> nat \<Rightarrow> allocator" where
  "pool_allocator bufsize left k =
     (if k \<le> bufsize \<and> 0 < left
      then Some \<lparr>payload = [], max_data_length = bufsize, has_next = False\<rparr>
      else None)"

text \<open>
  The constants \<^verbatim>\<open>System::PacketBuffer::kMaxSize\<close> and \<^verbatim>\<open>kMaxTagLen\<close> come from headers outside
  the sources at hand; they are fields of a configuration. The \<^verbatim>\<open>static_assert\<close> in
  \<^verbatim>\<open>MessagePacketBuffer::New\<close> makes the program compile only when the footer fits.
\<close>

record buffer_config =
  kMaxSize :: nat
  kMaxTagLen :: nat

definition kMaxFooterSize :: "buffer_config \<Rightarrow> nat" where
  "kMaxFooterSize cfg = kMaxTagLen cfg"

definition adequate_capacity :: "buffer_config \<Rightarrow> bool" where
  \<comment> \<open>\<^verbatim>\<open>static_assert(System::PacketBuffer::kMaxSize > kMaxFooterSize, "inadequate capacity")\<close>\<close>
  "adequate_capacity cfg = (kMaxSize cfg > kMaxFooterSize cfg)"

text \<open>
  Sizes are natural numbers. Under the \<^verbatim>\<open>static_assert\<close> the difference
  \<^verbatim>\<open>kMaxSize - kMaxFooterSize\<close> is positive, and on the allocating path the sum
  \<^verbatim>\<open>aAvailableSize + kMaxFooterSize\<close> is at most \<^verbatim>\<open>kMaxSize\<close>, so neither wraps in \<^verbatim>\<open>size_t\<close>.
\<close>

definition MessagePacketBuffer_New :: "buffer_config \<Rightarrow> allocator \<Rightarrow> nat \<Rightarrow> PacketBufferHandle" where
  "MessagePacketBuffer_New cfg PacketBufferHandle_New aAvailableSize =
     (if aAvailableSize > kMaxSize cfg - kMaxFooterSize cfg then None
      else PacketBufferHandle_New (aAvailableSize + kMaxFooterSize cfg))"

definition HasFooterSpace :: "buffer_config \<Rightarrow> PacketBuffer \<Rightarrow> bool" where
  \<comment> \<open>the handle passed is dereferenced, so the argument is the buffer it holds\<close>
  "HasFooterSpace cfg aBuffer = (AvailableDataLength aBuffer \<ge> kMaxFooterSize cfg)"

subsection \<open>Encrypted packet buffers\<close>

text \<open>
  \<^verbatim>\<open>EncryptedPacketBufferHandle\<close> derives privately from \<^verbatim>\<open>PacketBufferHandle\<close>: the same handle
  under another type.
\<close>

datatype EncryptedPacketBufferHandle = Encrypted PacketBufferHandle

text \<open>
  Modelled from the spec: \<^verbatim>\<open>PacketBufferHandle::CloneData\<close> is defined in the system layer,
  outside the sources at hand. The spec: "performs a byte-for-byte copy of a single
  (non-chained) buffer; fails on chained buffers or allocation failure", the failure being an
  empty handle. The copy is asked from the allocator with the capacity of the original.
\<close>

definition PacketBufferHandle_CloneData :: "allocator \<Rightarrow> PacketBuffer \<Rightarrow> PacketBufferHandle" where
  "PacketBufferHandle_CloneData alloc b =
     (if has_next b then None
      else case alloc (max_data_length b) of
             None \<Rightarrow> None
           | Some c \<Rightarrow> Some (c\<lparr>payload := payload b\<rparr>))"

text \<open>
  \<^verbatim>\<open>EncryptedPacketBufferHandle::CloneData\<close> wraps the result of the base class. It is not a
  \<^verbatim>\<open>const\<close> member, so the model returns the object afterwards next to the clone. Calling it
  on an empty handle dereferences a null pointer: that is \<open>None\<close>.
\<close>

definition CloneData ::
  "allocator \<Rightarrow> EncryptedPacketBufferHandle
     \<Rightarrow> (EncryptedPacketBufferHandle \<times> EncryptedPacketBufferHandle) option" where
  "CloneData alloc this =
     (case this of
        Encrypted None \<Rightarrow> None
      | Encrypted (Some b) \<Rightarrow> Some (this, Encrypted (PacketBufferHandle_CloneData alloc b)))"

section \<open>The delegate interface: SecureSessionMgrDelegate\<close>

text \<open>
  The error codes named by the interface. The types of the packet header, the payload
  header, the peer address, the peer connection state and the manager are opaque to the
  delegate's base class, so they are type variables; \<open>'d\<close> is the state of the object that
  implements the delegate. Each definition is the body the base class gives the virtual
  member: the state after the call and, for the one member that returns a value, the value.
\<close>

datatype CHIP_ERROR = CHIP_NO_ERROR | CHIP_ERROR_NO_MEMORY

definition OnMessageReceived_default ::
  "'ph \<Rightarrow> 'plh \<Rightarrow> SecureSessionHandle \<Rightarrow> 'addr \<Rightarrow> PacketBufferHandle \<Rightarrow> 'mgr \<Rightarrow> 'd \<Rightarrow> 'd" where
  "OnMessageReceived_default packetHeader payloadHeader session source msgBuf mgr d = d"

definition OnReceiveError_default :: "'err \<Rightarrow> 'addr \<Rightarrow> 'mgr \<Rightarrow> 'd \<Rightarrow> 'd" where
  "OnReceiveError_default error source mgr d = d"

definition OnNewConnection_default :: "SecureSessionHandle \<Rightarrow> 'mgr \<Rightarrow> 'd \<Rightarrow> 'd" where
  "OnNewConnection_default session mgr d = d"

definition OnConnectionExpired_default :: "SecureSessionHandle \<Rightarrow> 'mgr \<Rightarrow> 'd \<Rightarrow> 'd" where
  "OnConnectionExpired_default session mgr d = d"

definition QueueReceivedMessageAndSync_default ::
  "'state \<Rightarrow> PacketBufferHandle \<Rightarrow> 'd \<Rightarrow> CHIP_ERROR \<times> 'd" where
  "QueueReceivedMessageAndSync_default state msgBuf d = (CHIP_NO_ERROR, d)"

section \<open>Window covering: parsing cluster commands\<close>

datatype EmberAfStatus =
    EMBER_ZCL_STATUS_SUCCESS
  | EMBER_ZCL_STATUS_UNSUP_MANUF_CLUSTER_COMMAND
  | EMBER_ZCL_STATUS_UNSUP_COMMAND
  | EMBER_ZCL_STATUS_UNSUPPORTED_CLUSTER
  | EMBER_ZCL_STATUS_MALFORMED_COMMAND

definition status :: "bool \<Rightarrow> bool \<Rightarrow> bool \<Rightarrow> EmberAfStatus" where
  "status wasHandled clusterExists mfgSpecific =
     (if wasHandled then EMBER_ZCL_STATUS_SUCCESS
      else if mfgSpecific then EMBER_ZCL_STATUS_UNSUP_MANUF_CLUSTER_COMMAND
      else if clusterExists then EMBER_ZCL_STATUS_UNSUP_COMMAND
      else EMBER_ZCL_STATUS_UNSUPPORTED_CLUSTER)"

text \<open>
  The command identifiers are macros of \<^verbatim>\<open>command-id.h\<close>, outside the sources at hand. The
  \<^verbatim>\<open>switch\<close> tells its seven labels apart from each other and from every other value, which
  is what the datatype keeps of the byte \<^verbatim>\<open>commandId\<close>.
\<close>

datatype CommandId =
    ZCL_WINDOW_COVERING_DOWN_CLOSE_COMMAND_ID
  | ZCL_WINDOW_COVERING_GO_TO_LIFT_PERCENTAGE_COMMAND_ID
  | ZCL_WINDOW_COVERING_GO_TO_LIFT_VALUE_COMMAND_ID
  | ZCL_WINDOW_COVERING_GO_TO_TILT_PERCENTAGE_COMMAND_ID
  | ZCL_WINDOW_COVERING_GO_TO_TILT_VALUE_COMMAND_ID
  | ZCL_WINDOW_COVERING_STOP_COMMAND_ID
  | ZCL_WINDOW_COVERING_UP_OPEN_COMMAND_ID
  | UNRECOGNIZED_COMMAND_ID

text \<open>The fields of \<^verbatim>\<open>EmberAfClusterCommand\<close> that the window covering parser reads.\<close>

record EmberAfClusterCommand =
  mfgSpecific :: bool
  commandId :: CommandId
  buffer :: "8 word list"
  bufLen :: "16 word"
  payloadStartIndex :: "16 word"

text \<open>
  A call of one of the cluster's callbacks, with the arguments after the leading
  \<^verbatim>\<open>nullptr\<close>.
\<close>

datatype callback_call =
    WindowCoveringDownCloseCallback
  | WindowCoveringGoToLiftPercentageCallback "8 word"
  | WindowCoveringGoToLiftValueCallback "16 word"
  | WindowCoveringGoToTiltPercentageCallback "8 word"
  | WindowCoveringGoToTiltValueCallback "16 word"
  | WindowCoveringStopCallback
  | WindowCoveringUpOpenCallback

text \<open>
  What the parser calls and does not define: the readers \<^verbatim>\<open>emberAfGetInt8u\<close> and
  \<^verbatim>\<open>emberAfGetInt16u\<close> of \<^verbatim>\<open>app/util/util.h\<close>, and the application's callbacks, which
  return whether the command was handled and may change the application's state \<open>'a\<close>.
\<close>

record 'a zcl_env =
  emberAfGetInt8u :: "8 word list \<Rightarrow> 16 word \<Rightarrow> 16 word \<Rightarrow> 8 word"
  emberAfGetInt16u :: "8 word list \<Rightarrow> 16 word \<Rightarrow> 16 word \<Rightarrow> 16 word"
  callback :: "callback_call \<Rightarrow> 'a \<Rightarrow> bool \<times> 'a"

text \<open>
  The result of the parser: the status returned, the callbacks invoked in order, and the
  application's state afterwards.
\<close>

type_synonym 'a parse_result = "EmberAfStatus \<times> callback_call list \<times> 'a"

definition invoke :: "'a zcl_env \<Rightarrow> EmberAfClusterCommand \<Rightarrow> callback_call \<Rightarrow> 'a \<Rightarrow> 'a parse_result" where
  \<comment> \<open>\<^verbatim>\<open>wasHandled = callback(...); break;\<close> and then the \<^verbatim>\<open>return status(wasHandled, true, ...)\<close>\<close>
  "invoke env cmd c a =
     (let (wasHandled, a') = callback env c a
      in (status wasHandled True (mfgSpecific cmd), [c], a'))"

text \<open>
  In \<^verbatim>\<open>cmd->bufLen < payloadOffset + 1\<close> both operands are promoted to \<^verbatim>\<open>int\<close>, so the sum does
  not wrap at 16 bits: the comparison is on the numbers the words stand for.
\<close>

definition emberAfWindowCoveringClusterServerCommandParse ::
  "'a zcl_env \<Rightarrow> EmberAfClusterCommand \<Rightarrow> 'a \<Rightarrow> 'a parse_result" where
  "emberAfWindowCoveringClusterServerCommandParse env cmd a =
     (if \<not> mfgSpecific cmd then
        (case commandId cmd of
           ZCL_WINDOW_COVERING_DOWN_CLOSE_COMMAND_ID \<Rightarrow>
             invoke env cmd WindowCoveringDownCloseCallback a
         | ZCL_WINDOW_COVERING_GO_TO_LIFT_PERCENTAGE_COMMAND_ID \<Rightarrow>
             (let payloadOffset = payloadStartIndex cmd
              in if unat (bufLen cmd) < unat payloadOffset + 1
                 then (EMBER_ZCL_STATUS_MALFORMED_COMMAND, [], a)
                 else invoke env cmd
                        (WindowCoveringGoToLiftPercentageCallback
                           (emberAfGetInt8u env (buffer cmd) payloadOffset (bufLen cmd))) a)
         | ZCL_WINDOW_COVERING_GO_TO_LIFT_VALUE_COMMAND_ID \<Rightarrow>
             (let payloadOffset = payloadStartIndex cmd
              in if unat (bufLen cmd) < unat payloadOffset + 2
                 then (EMBER_ZCL_STATUS_MALFORMED_COMMAND, [], a)
                 else invoke env cmd
                        (WindowCoveringGoToLiftValueCallback
                           (emberAfGetInt16u env (buffer cmd) payloadOffset (bufLen cmd))) a)
         | ZCL_WINDOW_COVERING_GO_TO_TILT_PERCENTAGE_COMMAND_ID \<Rightarrow>
             (let payloadOffset = payloadStartIndex cmd
              in if unat (bufLen cmd) < unat payloadOffset + 1
                 then (EMBER_ZCL_STATUS_MALFORMED_COMMAND, [], a)
                 else invoke env cmd
                        (WindowCoveringGoToTiltPercentageCallback
                           (emberAfGetInt8u env (buffer cmd) payloadOffset (bufLen cmd))) a)
         | ZCL_WINDOW_COVERING_GO_TO_TILT_VALUE_COMMAND_ID \<Rightarrow>
             (let payloadOffset = payloadStartIndex cmd
              in if unat (bufLen cmd) < unat payloadOffset + 2
                 then (EMBER_ZCL_STATUS_MALFORMED_COMMAND, [], a)
                 else invoke env cmd
                        (WindowCoveringGoToTiltValueCallback
                           (emberAfGetInt16u env (buffer cmd) payloadOffset (bufLen cmd))) a)
         | ZCL_WINDOW_COVERING_STOP_COMMAND_ID \<Rightarrow>
             invoke env cmd WindowCoveringStopCallback a
         | ZCL_WINDOW_COVERING_UP_OPEN_COMMAND_ID \<Rightarrow>
             invoke env cmd WindowCoveringUpOpenCallback a
         | UNRECOGNIZED_COMMAND_ID \<Rightarrow> (status False True (mfgSpecific cmd), [], a))
      else (status False True (mfgSpecific cmd), [], a))"

text \<open>
  An environment to run the parser in: the readers take the byte at the offset (and the
  next one, little-endian) or 0 outside the buffer; every callback reports the command as
  handled and counts it in a state that is a counter.
\<close>

definition sample_env :: "nat zcl_env" where
  "sample_env =
     \<lparr>emberAfGetInt8u = (\<lambda>buf off len. if unat off < length buf then buf ! unat off else 0),
      emberAfGetInt16u = (\<lambda>buf off len.
         if unat off + 1 < length buf
         then word_cat (buf ! (unat off + 1)) (buf ! unat off) else 0),
      callback = (\<lambda>c a. (True, Suc a))\<rparr>"

definition short_lift_percentage :: EmberAfClusterCommand where
  \<comment> \<open>Go-To-Lift-Percentage with the payload starting at the end of a 3-byte buffer\<close>
  "short_lift_percentage =
     \<lparr>mfgSpecific = False, commandId = ZCL_WINDOW_COVERING_GO_TO_LIFT_PERCENTAGE_COMMAND_ID,
      buffer = [1, 0, 5], bufLen = 3, payloadStartIndex = 3\<rparr>"

definition short_lift_value :: EmberAfClusterCommand where
  \<comment> \<open>Go-To-Lift-Value with one byte of payload where two are needed\<close>
  "short_lift_value =
     \<lparr>mfgSpecific = False, commandId = ZCL_WINDOW_COVERING_GO_TO_LIFT_VALUE_COMMAND_ID,
      buffer = [1, 0, 4, 9], bufLen = 4, payloadStartIndex = 3\<rparr>"

definition mfg_short_lift_percentage :: EmberAfClusterCommand where
  \<comment> \<open>the first command again, flagged manufacturer-specific\<close>
  "mfg_short_lift_percentage = short_lift_percentage\<lparr>mfgSpecific := True\<rparr>"

section \<open>The secure session manager\<close>

text \<open>The private enumeration \<^verbatim>\<open>SecureSessionMgr::State\<close> and the direction of a pairing.\<close>

datatype State = kNotReady | kInitialized

datatype PairingDirection = kInitiator | kResponder

text \<open>
  Modelled from the spec: the member functions of \<^verbatim>\<open>SecureSessionMgr\<close> (\<^verbatim>\<open>Init\<close>, \<^verbatim>\<open>Shutdown\<close>,
  \<^verbatim>\<open>NewPairing\<close>, \<^verbatim>\<open>SendMessage\<close>, \<^verbatim>\<open>SendEncryptedMessage\<close>, \<^verbatim>\<open>HandleGroupMessageReceived\<close>) are
  declared in the header at hand and defined in a source file that is not among the
  sources, as are \<^verbatim>\<open>Transport::PeerConnectionState\<close>, the connection pool and the pairing
  session. Everything in this section follows sections 3, 4.3 to 4.7 and 7 of the spec.

  The errors are the spec's taxonomy. An operation yields what the caller receives, the
  manager afterwards and the effects it had outside the manager, in order: buffers handed
  to the transport, buffers stored in the caller's retain slot, and calls of the delegate.
  What the caller receives is fixed by the declarations in the header: the members declared
  \<^verbatim>\<open>CHIP_ERROR\<close> return the error they fail with (\<open>Returned None\<close> on success), and \<^verbatim>\<open>Shutdown\<close>
  and \<^verbatim>\<open>HandleGroupMessageReceived\<close>, declared \<^verbatim>\<open>void\<close>, return nothing (\<open>Void\<close>): an error in
  them can reach the outside through the delegate's error hook only.
\<close>

datatype session_error =
    NotInitialized
  | AlreadyInitialized
  | ResourceExhausted
  | NoSession
  | EncryptionFailed
  | DuplicateOrStale
  | MalformedPacket
  | KeyDerivationFailed

record PeerConnectionState =
  identity :: SecureSessionHandle
  peerAddress :: nat
  encryptionKeys :: nat
  lastActivityTimestamp :: nat
  sendCounter :: "32 word"
  receiveCounterState :: "32 word"

record PairingSession =
  pairingPeerKeyId :: "16 word"
  pairingKeys :: "nat option"
  pairingSendCounter :: "32 word"
  pairingReceiveCounter :: "32 word"

record SecureSessionMgr =
  mState :: State
  mLocalNodeId :: NodeId
  mPeerConnections :: "PeerConnectionState list"
  expiryTimerArmed :: bool
  registeredWithTransport :: bool

datatype effect =
    TransportSend nat EncryptedPacketBufferHandle
  | RetainSlotStore EncryptedPacketBufferHandle
  | CallOnNewConnection SecureSessionHandle
  | CallOnMessageReceived SecureSessionHandle nat "8 word list"
  | CallOnReceiveError session_error nat
  | CallQueueReceivedMessageAndSync PacketBuffer

datatype returned = Void | Returned "session_error option"

type_synonym outcome = "returned \<times> SecureSessionMgr \<times> effect list"

text \<open>
  The services the manager consumes, opaque in the spec: the capacity \<open>N\<close> of the pool, the
  clock, the buffer constants and allocator, the cipher (which fails with an error of its
  own kind), the codec of the packet header (message counter and key id in front of the
  payload), and the answer of the delegate's queue-and-synchronise hook.
\<close>

record session_env =
  poolCapacity :: nat
  now :: nat
  bufferConfig :: buffer_config
  bufferAlloc :: allocator
  encrypt :: "nat \<Rightarrow> 32 word \<Rightarrow> 8 word list \<Rightarrow> 8 word list"
  decrypt :: "nat \<Rightarrow> 32 word \<Rightarrow> 8 word list \<Rightarrow> session_error + 8 word list"
  encodeHeader :: "32 word \<Rightarrow> 16 word \<Rightarrow> 8 word list"
  decodeHeader :: "8 word list \<Rightarrow> (32 word \<times> 16 word \<times> 8 word list) option"
  queueAnswer :: "PacketBuffer \<Rightarrow> CHIP_ERROR"

text \<open>
  Modelled from the spec: the constructor and \<^verbatim>\<open>Init\<close>/\<^verbatim>\<open>Shutdown\<close> (section 4.4). "States:
  \<open>NotReady \<rightarrow> Init() \<rightarrow> Initialized \<rightarrow> Shutdown() \<rightarrow> NotReady\<close>"; \<^verbatim>\<open>Init\<close> "registers itself as
  the transport's receive delegate and arms the expiry timer", and on an initialised manager
  "is an error (\<open>AlreadyInitialized\<close>)"; \<^verbatim>\<open>Shutdown\<close> "cancels the expiry timer, clears the
  connection pool ... and deregisters from the transport", and on a manager that is
  \<open>NotReady\<close> "is a no-op error, not a crash": the member is declared \<^verbatim>\<open>void\<close>, so it does
  nothing.
\<close>

definition SecureSessionMgr_new :: "NodeId \<Rightarrow> SecureSessionMgr" where
  \<comment> \<open>"\<open>NotReady\<close> is the only legal start state"\<close>
  "SecureSessionMgr_new localNodeId =
     \<lparr>mState = kNotReady, mLocalNodeId = localNodeId, mPeerConnections = [],
      expiryTimerArmed = False, registeredWithTransport = False\<rparr>"

definition Init :: "NodeId \<Rightarrow> SecureSessionMgr \<Rightarrow> outcome" where
  \<comment> \<open>the scheduler and the transport it requires are taken to be there\<close>
  "Init localNodeId mgr =
     (if mState mgr = kInitialized then (Returned (Some AlreadyInitialized), mgr, [])
      else (Returned None,
            mgr\<lparr>mState := kInitialized, mLocalNodeId := localNodeId,
                expiryTimerArmed := True, registeredWithTransport := True\<rparr>, []))"


text \<open>
  Modelled from the spec: the pool's \<open>find\<close> (section 4.3), keyed by the session identity
  and its equality, and the update of the entry found.
\<close>

definition find_connection :: "SecureSessionHandle \<Rightarrow> PeerConnectionState list \<Rightarrow> PeerConnectionState option" where
  "find_connection session pool = find (\<lambda>p. handle_equals (identity p) session) pool"

definition update_connection ::
  "SecureSessionHandle \<Rightarrow> (PeerConnectionState \<Rightarrow> PeerConnectionState)
     \<Rightarrow> PeerConnectionState list \<Rightarrow> PeerConnectionState list" where
  "update_connection session f pool =
     map (\<lambda>p. if handle_equals (identity p) session then f p else p) pool"

text \<open>
  Modelled from the spec: \<^verbatim>\<open>NewPairing\<close> (section 4.5) "extracts derived encryption keys and
  counters from the supplied ... pairing session object, builds a SessionIdentity, and
  inserts a new PeerConnectionState into the pool. Fails with \<open>ResourceExhausted\<close> if the pool
  is full, or propagates a \<open>KeyDerivationFailed\<close>-class error if the pairing session has no
  valid keys. On success, invokes the delegate's new connection notification"; the insert
  "fails if identity already present or pool full" (section 4.3). The direction does not
  change what is stored.
\<close>

definition NewPairing ::
  "session_env \<Rightarrow> nat option \<Rightarrow> NodeId \<Rightarrow> PairingSession \<Rightarrow> PairingDirection \<Rightarrow> AdminId
     \<Rightarrow> SecureSessionMgr \<Rightarrow> outcome" where
  "NewPairing env peerAddr peerNodeId pairing direction admin mgr =
     (if mState mgr \<noteq> kInitialized then (Returned (Some NotInitialized), mgr, [])
      else case pairingKeys pairing of
        None \<Rightarrow> (Returned (Some KeyDerivationFailed), mgr, [])
      | Some keys \<Rightarrow>
          (let session = SecureSessionHandle_new peerNodeId (pairingPeerKeyId pairing) admin
           in if find_connection session (mPeerConnections mgr) \<noteq> None
                 \<or> length (mPeerConnections mgr) \<ge> poolCapacity env
              then (Returned (Some ResourceExhausted), mgr, [])
              else (Returned None,
                    mgr\<lparr>mPeerConnections := mPeerConnections mgr @
                      [\<lparr>identity = session,
                        peerAddress = (case peerAddr of None \<Rightarrow> 0 | Some addr \<Rightarrow> addr),
                        encryptionKeys = keys, lastActivityTimestamp = now env,
                        sendCounter = pairingSendCounter pairing,
                        receiveCounterState = pairingReceiveCounter pairing\<rparr>]\<rparr>,
                    [CallOnNewConnection session])))"

text \<open>
  Modelled from the spec: the send path (section 4.6). \<^verbatim>\<open>SendMessage\<close> looks the session up
  (\<open>NoSession\<close>), puts the packet header in front of the payload, encrypts under the
  session's key and send counter and increments the counter (\<open>EncryptionFailed\<close> when the
  buffer has no footer space), hands the encrypted buffer to the transport for the peer's
  address, and stores a clone in the retain slot when one is supplied, "best-effort".
  \<^verbatim>\<open>SendEncryptedMessage\<close> "is the same as step 4-5 but skips steps 2-3". A successful send
  refreshes the last-activity timestamp (section 3), and every operation but \<^verbatim>\<open>Init\<close> "fails
  fast while \<open>NotReady\<close>".
\<close>

definition retain ::
  "session_env \<Rightarrow> bool \<Rightarrow> EncryptedPacketBufferHandle \<Rightarrow> effect list" where
  \<comment> \<open>step 5 of the send path: a clone for the retain slot, best effort\<close>
  "retain env retainSlot msgBuf =
     (if retainSlot
      then (case CloneData (bufferAlloc env) msgBuf of
              None \<Rightarrow> []
            | Some (_, clone) \<Rightarrow> [RetainSlotStore clone])
      else [])"


definition SendMessage ::
  "session_env \<Rightarrow> SecureSessionHandle \<Rightarrow> 8 word list \<Rightarrow> PacketBuffer \<Rightarrow> bool
     \<Rightarrow> SecureSessionMgr \<Rightarrow> outcome" where
  "SendMessage env session payloadHeader msgBuf retainSlot mgr =
     (if mState mgr \<noteq> kInitialized then (Returned (Some NotInitialized), mgr, [])
      else case find_connection session (mPeerConnections mgr) of
        None \<Rightarrow> (Returned (Some NoSession), mgr, [])
      | Some state \<Rightarrow>
          (let plain = fill_payload msgBuf
                 (encodeHeader env (sendCounter state) (mPeerKeyId session)
                    @ payloadHeader @ payload msgBuf)
           in if \<not> HasFooterSpace (bufferConfig env) plain
              then (Returned (Some EncryptionFailed), mgr, [])
              else
                (let cipher = Encrypted (Some (plain\<lparr>payload :=
                       encrypt env (encryptionKeys state) (sendCounter state) (payload plain)\<rparr>))
                 in (Returned None,
                     mgr\<lparr>mPeerConnections := update_connection session
                           (\<lambda>p. p\<lparr>sendCounter := sendCounter p + 1,
                                  lastActivityTimestamp := now env\<rparr>) (mPeerConnections mgr)\<rparr>,
                     TransportSend (peerAddress state) cipher # retain env retainSlot cipher))))"


text \<open>
  Services to run the manager with: a pool of two connections, a cipher that adds the key
  and the counter to every byte and appends a one-byte tag, and a header of the low bytes
  of the counter and of the key id.
\<close>

definition sample_session_env :: session_env where
  "sample_session_env =
     \<lparr>poolCapacity = 2, now = 100,
      bufferConfig = \<lparr>kMaxSize = 1280, kMaxTagLen = 1\<rparr>,
      bufferAlloc = pool_allocator 1583 4,
      encrypt = (\<lambda>k c bytes. map (\<lambda>x. x + of_nat k + ucast c) bytes @ [of_nat k]),
      decrypt = (\<lambda>k c bytes.
         if bytes \<noteq> [] \<and> last bytes = of_nat k
         then Inr (map (\<lambda>x. x - of_nat k - ucast c) (butlast bytes))
         else Inl EncryptionFailed),
      encodeHeader = (\<lambda>c k. [ucast c, ucast k]),
      decodeHeader = (\<lambda>bytes. case bytes of
         c # k # rest \<Rightarrow> Some (ucast c, ucast k, rest) | _ \<Rightarrow> None),
      queueAnswer = (\<lambda>b. CHIP_NO_ERROR)\<rparr>"

definition sample_pairing :: PairingSession where
  "sample_pairing =
     \<lparr>pairingPeerKeyId = 3, pairingKeys = Some 9, pairingSendCounter = 0,
      pairingReceiveCounter = 0\<rparr>"

definition sample_buffer :: PacketBuffer where
  "sample_buffer = \<lparr>payload = [1, 2, 3], max_data_length = 64, has_next = False\<rparr>"

definition ready_mgr :: SecureSessionMgr where
  \<comment> \<open>constructed, initialised, one pairing made\<close>
  "ready_mgr =
     fst (snd (NewPairing sample_session_env (Some 1) 7 sample_pairing kInitiator 5
       (fst (snd (Init 1 (SecureSessionMgr_new 0))))))"


section \<open>Theorems\<close>

text \<open>
  C2. Two session handles compare equal exactly when their peer node ids, their peer key
  ids and their admin ids are equal. The undefined admin id is compared like any other
  value: a handle without an admin id never equals one that has an admin id, and handles
  that compare equal are the same value.
\<close>

theorem handle_equals_iff:
  "(handle_equals a b \<longleftrightarrow>
      GetPeerNodeId a = GetPeerNodeId b \<and> GetPeerKeyId a = GetPeerKeyId b
        \<and> GetAdminId a = GetAdminId b)
   \<and> (handle_equals a b \<longleftrightarrow> a = b)
   \<and> (handle_equals a b \<longrightarrow> HasAdminId u a = HasAdminId u b)"
  by (cases a, cases b)
     (auto simp: handle_equals_def GetPeerNodeId_def GetPeerKeyId_def GetAdminId_def
        HasAdminId_def)

theorem handle_equals_iff_witness:
  "handle_equals (SecureSessionHandle_new 7 3 0xFFFF) (SecureSessionHandle_new 7 3 0xFFFF)
   \<and> HasAdminId 0xFFFF (SecureSessionHandle_new 7 3 0xFFFF)
       = HasAdminId 0xFFFF (SecureSessionHandle_new 7 3 0xFFFF)
   \<and> \<not> handle_equals (SecureSessionHandle_new 7 3 0xFFFF) (SecureSessionHandle_new 7 3 1)"
  using handle_equals_iff [of "SecureSessionHandle_new 7 3 0xFFFF"
      "SecureSessionHandle_new 7 3 0xFFFF" "0xFFFF"]
  by (simp add: handle_equals_def SecureSessionHandle_new_def)

text \<open>
  C8, as amended. \<^verbatim>\<open>SetAdminId\<close> changes the admin id alone: the peer node id and the peer
  key id read the same before and after it, and the admin id afterwards is the one given.
  Of the public member functions other than the implicitly declared copy and move
  assignment, none changes the peer node id or the peer key id, and every one but
  \<^verbatim>\<open>SetAdminId\<close> leaves the whole object as it was. The copy and the move assignment replace
  the object by their argument.
\<close>

theorem SetAdminId_frame:
  "GetPeerNodeId (SetAdminId a h) = GetPeerNodeId h
   \<and> GetPeerKeyId (SetAdminId a h) = GetPeerKeyId h
   \<and> GetAdminId (SetAdminId a h) = a
   \<and> (\<not> is_assignment c \<longrightarrow>
        GetPeerNodeId (snd (handle_invoke u c h)) = GetPeerNodeId h
        \<and> GetPeerKeyId (snd (handle_invoke u c h)) = GetPeerKeyId h)
   \<and> (\<not> is_assignment c \<and> \<not> is_SetAdminId c \<longrightarrow> snd (handle_invoke u c h) = h)
   \<and> snd (handle_invoke u (Call_copy_assign that) h) = that
   \<and> snd (handle_invoke u (Call_move_assign that) h) = that"
  by (cases c)
     (simp_all add: SetAdminId_def GetPeerNodeId_def GetPeerKeyId_def GetAdminId_def
        is_assignment_def is_SetAdminId_def)

theorem SetAdminId_frame_witness:
  "\<not> is_assignment Call_GetPeerKeyId \<and> \<not> is_SetAdminId Call_GetPeerKeyId
   \<and> snd (handle_invoke 0xFFFF Call_GetPeerKeyId (SecureSessionHandle_new 7 3 0xFFFF))
       = SecureSessionHandle_new 7 3 0xFFFF
   \<and> GetPeerNodeId (SetAdminId 5 (SecureSessionHandle_new 7 3 0xFFFF)) = 7
   \<and> GetPeerKeyId (SetAdminId 5 (SecureSessionHandle_new 7 3 0xFFFF)) = 3
   \<and> GetAdminId (SetAdminId 5 (SecureSessionHandle_new 7 3 0xFFFF)) = 5"
  using SetAdminId_frame [of 5 "SecureSessionHandle_new 7 3 0xFFFF" Call_GetPeerKeyId "0xFFFF"]
  by (simp add: SecureSessionHandle_new_def GetPeerNodeId_def GetPeerKeyId_def
      is_assignment_def is_SetAdminId_def)

text \<open>
  C8, as stated, fails for the copy assignment, a public operation that is not
  \<^verbatim>\<open>SetAdminId\<close>: assigning the handle (9, 4, 1) to the handle (7, 3, 5) changes the peer
  node id from 7 to 9 and the peer key id from 3 to 4.
\<close>

theorem SetAdminId_frame_counterexample:
  "GetPeerNodeId (SecureSessionHandle_new 7 3 5) = 7
   \<and> GetPeerKeyId (SecureSessionHandle_new 7 3 5) = 3
   \<and> GetPeerNodeId (snd (handle_invoke 0xFFFF (Call_copy_assign (SecureSessionHandle_new 9 4 1))
         (SecureSessionHandle_new 7 3 5))) = 9
   \<and> GetPeerKeyId (snd (handle_invoke 0xFFFF (Call_copy_assign (SecureSessionHandle_new 9 4 1))
         (SecureSessionHandle_new 7 3 5))) = 4"
  by (simp add: SecureSessionHandle_new_def GetPeerNodeId_def GetPeerKeyId_def)

text \<open>
  C9. \<^verbatim>\<open>SetMac\<close> keeps at most \<^verbatim>\<open>kMaxMacSize\<close> = 8 bytes: afterwards \<^verbatim>\<open>GetMac\<close> gives the first
  \<open>min (size of mac) 8\<close> bytes of the span passed in, whatever the object held before. The
  call returns the object itself, so a longer span is cut short without any error; the
  port and the IPv4 flag are not touched.
\<close>

theorem SetMac_truncates:
  "GetMac (SetMac mac p) = take (min (length mac) 8) mac
   \<and> length (GetMac (SetMac mac p)) = min (length mac) 8
   \<and> mPort (SetMac mac p) = mPort p
   \<and> mEnableIPv4 (SetMac mac p) = mEnableIPv4 p"
  by (simp add: GetMac_def SetMac_def memcpy_def kMaxMacSize_def Let_def)

text \<open>
  C3. \<^verbatim>\<open>MessagePacketBuffer::New\<close> asks the system allocator for the requested size plus the
  footer reservation \<^verbatim>\<open>kMaxFooterSize\<close> = \<^verbatim>\<open>kMaxTagLen\<close>. Its result is an empty handle exactly
  when the request with its footer exceeds \<^verbatim>\<open>kMaxSize\<close>, which is the test
  \<open>n > kMaxSize - kMaxFooterSize\<close> of the code, or the system allocator fails; in every
  other case it is the buffer the allocator gave. The function is total: there is no third
  outcome.
\<close>

theorem MessagePacketBuffer_New_empty_iff:
  assumes "adequate_capacity cfg"
  shows "(MessagePacketBuffer_New cfg alloc n = None \<longleftrightarrow>
            n + kMaxFooterSize cfg > kMaxSize cfg \<or> alloc (n + kMaxFooterSize cfg) = None)
         \<and> (n + kMaxFooterSize cfg > kMaxSize cfg \<longleftrightarrow> n > kMaxSize cfg - kMaxFooterSize cfg)
         \<and> (n \<le> kMaxSize cfg - kMaxFooterSize cfg \<longrightarrow>
              MessagePacketBuffer_New cfg alloc n = alloc (n + kMaxFooterSize cfg))
         \<and> kMaxFooterSize cfg = kMaxTagLen cfg"
proof -
  from assms have le: "kMaxFooterSize cfg < kMaxSize cfg"
    by (simp add: adequate_capacity_def)
  then have large:
    "n + kMaxFooterSize cfg > kMaxSize cfg \<longleftrightarrow> n > kMaxSize cfg - kMaxFooterSize cfg"
    by arith
  show ?thesis
    using large by (simp add: MessagePacketBuffer_New_def kMaxFooterSize_def)
qed

theorem MessagePacketBuffer_New_empty_iff_witness:
  "adequate_capacity \<lparr>kMaxSize = 1280, kMaxTagLen = 16\<rparr>
   \<and> MessagePacketBuffer_New \<lparr>kMaxSize = 1280, kMaxTagLen = 16\<rparr> (pool_allocator 1583 4) 1264
       = Some \<lparr>payload = [], max_data_length = 1583, has_next = False\<rparr>
   \<and> MessagePacketBuffer_New \<lparr>kMaxSize = 1280, kMaxTagLen = 16\<rparr> (pool_allocator 1583 4) 1265
       = None
   \<and> MessagePacketBuffer_New \<lparr>kMaxSize = 1280, kMaxTagLen = 16\<rparr> (pool_allocator 1583 0) 100
       = None"
  using
    MessagePacketBuffer_New_empty_iff
      [of "\<lparr>kMaxSize = 1280, kMaxTagLen = 16\<rparr>" "pool_allocator 1583 4" 1264]
    MessagePacketBuffer_New_empty_iff
      [of "\<lparr>kMaxSize = 1280, kMaxTagLen = 16\<rparr>" "pool_allocator 1583 4" 1265]
    MessagePacketBuffer_New_empty_iff
      [of "\<lparr>kMaxSize = 1280, kMaxTagLen = 16\<rparr>" "pool_allocator 1583 0" 100]
  by (simp add: adequate_capacity_def kMaxFooterSize_def pool_allocator_def)

text \<open>
  C5. \<^verbatim>\<open>CloneData\<close> on an encrypted handle that holds a single buffer, when the allocation
  succeeds, returns a handle on the buffer the allocator gave, holding the bytes of the
  original: a new buffer with a byte-for-byte copy. The original handle is as it was. When
  the buffer is chained or the allocation fails the result is an empty handle, the original
  again as it was.
\<close>

theorem CloneData_copies:
  "(\<not> has_next b \<and> alloc (max_data_length b) = Some c \<longrightarrow>
      CloneData alloc (Encrypted (Some b))
        = Some (Encrypted (Some b), Encrypted (Some (c\<lparr>payload := payload b\<rparr>)))
      \<and> payload (c\<lparr>payload := payload b\<rparr>) = payload b)
   \<and> (has_next b \<or> alloc (max_data_length b) = None \<longrightarrow>
      CloneData alloc (Encrypted (Some b)) = Some (Encrypted (Some b), Encrypted None))"
  by (auto simp: CloneData_def PacketBufferHandle_CloneData_def)

theorem CloneData_copies_witness:
  "\<not> has_next sample_buffer
   \<and> pool_allocator 80 1 (max_data_length sample_buffer)
       = Some \<lparr>payload = [], max_data_length = 80, has_next = False\<rparr>
   \<and> CloneData (pool_allocator 80 1) (Encrypted (Some sample_buffer))
       = Some (Encrypted (Some sample_buffer),
               Encrypted (Some \<lparr>payload = [1, 2, 3], max_data_length = 80, has_next = False\<rparr>))
   \<and> pool_allocator 80 0 (max_data_length sample_buffer) = None
   \<and> CloneData (pool_allocator 80 0) (Encrypted (Some sample_buffer))
       = Some (Encrypted (Some sample_buffer), Encrypted None)"
  using
    CloneData_copies [of sample_buffer "pool_allocator 80 1"
      "\<lparr>payload = [], max_data_length = 80, has_next = False\<rparr>"]
    CloneData_copies [of sample_buffer "pool_allocator 80 0" sample_buffer]
  by (simp add: sample_buffer_def pool_allocator_def)

text \<open>
  C6. A buffer that \<^verbatim>\<open>MessagePacketBuffer::New\<close> returned for a size \<open>n\<close> (which then is at
  most \<open>kMaxSize - kMaxFooterSize\<close>), filled with at most \<open>n\<close> bytes of payload, has footer
  space, given a system allocator that keeps its contract; and \<^verbatim>\<open>HasFooterSpace\<close> holds of a
  buffer exactly when its available data length is at least \<^verbatim>\<open>kMaxFooterSize\<close>.
\<close>

theorem HasFooterSpace_after_New:
  assumes "adequate_capacity cfg"
    and "allocator_contract alloc"
    and "MessagePacketBuffer_New cfg alloc n = Some b"
    and "length bytes \<le> n"
  shows "HasFooterSpace cfg (fill_payload b bytes)
         \<and> n \<le> kMaxSize cfg - kMaxFooterSize cfg
         \<and> (HasFooterSpace cfg b' \<longleftrightarrow> AvailableDataLength b' \<ge> kMaxFooterSize cfg)"
proof -
  from assms(3) have n: "n \<le> kMaxSize cfg - kMaxFooterSize cfg"
    and al: "alloc (n + kMaxFooterSize cfg) = Some b"
    by (simp_all add: MessagePacketBuffer_New_def split: if_splits)
  from al assms(2) have cap: "n + kMaxFooterSize cfg \<le> max_data_length b"
    by (simp add: allocator_contract_def)
  from cap assms(4) have "kMaxFooterSize cfg \<le> AvailableDataLength (fill_payload b bytes)"
    by (simp add: AvailableDataLength_def fill_payload_def)
  with n show ?thesis
    by (simp add: HasFooterSpace_def)
qed

theorem HasFooterSpace_after_New_witness:
  "adequate_capacity \<lparr>kMaxSize = 1280, kMaxTagLen = 16\<rparr>
   \<and> allocator_contract (pool_allocator 1583 4)
   \<and> MessagePacketBuffer_New \<lparr>kMaxSize = 1280, kMaxTagLen = 16\<rparr> (pool_allocator 1583 4) 3
       = Some \<lparr>payload = [], max_data_length = 1583, has_next = False\<rparr>
   \<and> length [7, 8, 9 :: 8 word] \<le> 3
   \<and> HasFooterSpace \<lparr>kMaxSize = 1280, kMaxTagLen = 16\<rparr>
        (fill_payload \<lparr>payload = [], max_data_length = 1583, has_next = False\<rparr> [7, 8, 9])"
proof -
  have a: "adequate_capacity \<lparr>kMaxSize = 1280, kMaxTagLen = 16\<rparr>"
    by (simp add: adequate_capacity_def kMaxFooterSize_def)
  have c: "allocator_contract (pool_allocator 1583 4)"
    by (simp add: allocator_contract_def pool_allocator_def)
  have n: "MessagePacketBuffer_New \<lparr>kMaxSize = 1280, kMaxTagLen = 16\<rparr> (pool_allocator 1583 4) 3
       = Some \<lparr>payload = [], max_data_length = 1583, has_next = False\<rparr>"
    by (simp add: MessagePacketBuffer_New_def kMaxFooterSize_def pool_allocator_def)
  have l: "length [7, 8, 9 :: 8 word] \<le> 3" by simp
  from HasFooterSpace_after_New [OF a c n l, THEN conjunct1] a c n l show ?thesis by simp
qed

text \<open>
  C7. Each of the five callbacks of the delegate interface has a body in the base class.
  The four that return nothing do nothing, and \<^verbatim>\<open>QueueReceivedMessageAndSync\<close> returns
  \<^verbatim>\<open>CHIP_NO_ERROR\<close> for every connection state and buffer, changing nothing either.
\<close>

theorem delegate_defaults:
  "OnMessageReceived_default packetHeader payloadHeader session source msgBuf mgr d = d
   \<and> OnReceiveError_default error source mgr d = d
   \<and> OnNewConnection_default session mgr d = d
   \<and> OnConnectionExpired_default session mgr d = d
   \<and> QueueReceivedMessageAndSync_default state msgBuf d = (CHIP_NO_ERROR, d)"
  by (simp add: OnMessageReceived_default_def OnReceiveError_default_def
      OnNewConnection_default_def OnConnectionExpired_default_def
      QueueReceivedMessageAndSync_default_def)

text \<open>
  C10, as amended. For a command that is not manufacturer-specific: a Go-To-Lift-Percentage
  command with \<open>bufLen < payloadStartIndex + 1\<close> and a Go-To-Lift-Value command with
  \<open>bufLen < payloadStartIndex + 2\<close> make the window covering parser return
  \<^verbatim>\<open>EMBER_ZCL_STATUS_MALFORMED_COMMAND\<close> with no callback invoked and the application's state
  untouched.
\<close>

theorem parse_malformed:
  assumes "\<not> mfgSpecific cmd"
  shows "(commandId cmd = ZCL_WINDOW_COVERING_GO_TO_LIFT_PERCENTAGE_COMMAND_ID
            \<and> unat (bufLen cmd) < unat (payloadStartIndex cmd) + 1 \<longrightarrow>
          emberAfWindowCoveringClusterServerCommandParse env cmd a
            = (EMBER_ZCL_STATUS_MALFORMED_COMMAND, [], a))
       \<and> (commandId cmd = ZCL_WINDOW_COVERING_GO_TO_LIFT_VALUE_COMMAND_ID
            \<and> unat (bufLen cmd) < unat (payloadStartIndex cmd) + 2 \<longrightarrow>
          emberAfWindowCoveringClusterServerCommandParse env cmd a
            = (EMBER_ZCL_STATUS_MALFORMED_COMMAND, [], a))"
  using assms by (simp add: emberAfWindowCoveringClusterServerCommandParse_def)

theorem parse_malformed_witness:
  "\<not> mfgSpecific short_lift_percentage
   \<and> commandId short_lift_percentage = ZCL_WINDOW_COVERING_GO_TO_LIFT_PERCENTAGE_COMMAND_ID
   \<and> unat (bufLen short_lift_percentage) < unat (payloadStartIndex short_lift_percentage) + 1
   \<and> emberAfWindowCoveringClusterServerCommandParse sample_env short_lift_percentage 0
       = (EMBER_ZCL_STATUS_MALFORMED_COMMAND, [], 0)
   \<and> \<not> mfgSpecific short_lift_value
   \<and> commandId short_lift_value = ZCL_WINDOW_COVERING_GO_TO_LIFT_VALUE_COMMAND_ID
   \<and> unat (bufLen short_lift_value) < unat (payloadStartIndex short_lift_value) + 2
   \<and> emberAfWindowCoveringClusterServerCommandParse sample_env short_lift_value 0
       = (EMBER_ZCL_STATUS_MALFORMED_COMMAND, [], 0)"
  using parse_malformed [of short_lift_percentage sample_env 0]
    parse_malformed [of short_lift_value sample_env 0]
  by (simp add: short_lift_percentage_def short_lift_value_def)

text \<open>
  C10, as stated, fails for a manufacturer-specific command: the parser does not look at
  the command identifier or the length of such a command. With the identifier of
  Go-To-Lift-Percentage and a buffer too short for the payload it returns
  \<^verbatim>\<open>EMBER_ZCL_STATUS_UNSUP_MANUF_CLUSTER_COMMAND\<close>.
\<close>

theorem parse_malformed_counterexample:
  "commandId mfg_short_lift_percentage = ZCL_WINDOW_COVERING_GO_TO_LIFT_PERCENTAGE_COMMAND_ID
   \<and> unat (bufLen mfg_short_lift_percentage)
       < unat (payloadStartIndex mfg_short_lift_percentage) + 1
   \<and> emberAfWindowCoveringClusterServerCommandParse sample_env mfg_short_lift_percentage 0
       = (EMBER_ZCL_STATUS_UNSUP_MANUF_CLUSTER_COMMAND, [], 0)
   \<and> fst (emberAfWindowCoveringClusterServerCommandParse sample_env mfg_short_lift_percentage 0)
       \<noteq> EMBER_ZCL_STATUS_MALFORMED_COMMAND"
  by (simp add: emberAfWindowCoveringClusterServerCommandParse_def mfg_short_lift_percentage_def
      short_lift_percentage_def status_def)

text \<open>
  With a buffer long enough the same two commands reach their callbacks, so the length
  test is what decides.
\<close>

lemma parse_long_enough:
  "emberAfWindowCoveringClusterServerCommandParse sample_env
     (short_lift_value\<lparr>payloadStartIndex := 2\<rparr>) 0
   = (EMBER_ZCL_STATUS_SUCCESS, [WindowCoveringGoToLiftValueCallback 2308], 1)"
  by (simp add: emberAfWindowCoveringClusterServerCommandParse_def short_lift_value_def
      sample_env_def invoke_def status_def word_cat_eq)




text \<open>
  The same send on the manager before its \<^verbatim>\<open>Shutdown\<close> succeeds: the failure above comes
  from the state, not from the arguments.
\<close>

lemma ready_mgr_sends:
  "fst (SendMessage sample_session_env (SecureSessionHandle_new 7 3 5) [0xAA] sample_buffer
     False ready_mgr) = Returned None"
  by (simp add: SendMessage_def ready_mgr_def NewPairing_def Init_def SecureSessionMgr_new_def
      sample_session_env_def sample_pairing_def sample_buffer_def find_connection_def
      handle_equals_def SecureSessionHandle_new_def fill_payload_def HasFooterSpace_def
      AvailableDataLength_def kMaxFooterSize_def Let_def)

end
